theory Spec2Isabelle
  imports Complex_Main
begin

section \<open>Core types (core/types.ts)\<close>

text \<open>
  JavaScript values as far as the rule engine looks at them. A rule's return value is only
  ever passed to \<open>Boolean(...)\<close>, so a value is modelled by its kind and, for the
  primitive kinds, its content; every object, array or function is \<open>JObject\<close> (always
  truthy).
\<close>

datatype jsval =
    JUndefined
  | JNull
  | JBool bool
  | JNum int
  | JNaN
  | JStr string
  | JObject

text \<open>\<open>Boolean(x)\<close>: the falsy values are undefined, null, false, 0, NaN and the empty string.\<close>

fun Boolean :: "jsval \<Rightarrow> bool" where
  "Boolean JUndefined = False"
| "Boolean JNull = False"
| "Boolean (JBool b) = b"
| "Boolean (JNum n) = (n \<noteq> 0)"
| "Boolean JNaN = False"
| "Boolean (JStr s) = (s \<noteq> [])"
| "Boolean JObject = True"

text \<open>
  A thrown (or rejected-with) value, by the three observations the \<open>catch\<close> block of
  \<open>evaluateRule\<close> can make of it: whether it is \<open>instanceof Error\<close>, what its
  \<open>message\<close> property reads (\<open>None\<close> for \<open>undefined\<close>), and what \<open>String(error)\<close> does.
  The conversion either returns a string (\<open>Inr\<close>) or throws itself (\<open>Inl\<close>, with the value
  thrown): an object without a usable \<open>toString\<close>, such as \<open>Object.create(null)\<close>, makes
  \<open>String(...)\<close> raise a \<open>TypeError\<close>, and a \<open>toString\<close> of the value's own may throw
  anything.
\<close>

datatype thrown =
  Thrown (instanceof_Error: bool) (message: "string option") (String: "thrown + string")

text \<open>
  What calling a rule and awaiting \<open>Promise.resolve(rule(context))\<close> comes to: the rule
  returns a plain value, throws synchronously, or returns an awaitable that fulfils or
  rejects. A rule is modelled by this eventual settlement as a function of the context; a
  rule whose awaitable never settles leaves the evaluation pending and is outside the model.
\<close>

datatype settled =
    Returns jsval
  | Throws thrown
  | Fulfils jsval
  | Rejects thrown

record ('u, 'r) PermissionContext =
  user :: 'u
  resource :: "'r option"
  roles :: "string list"
  permissions :: "string list"
  flags :: "string \<rightharpoonup> bool"

type_synonym ('u, 'r) PermissionRule = "('u, 'r) PermissionContext \<Rightarrow> settled"

text \<open>
  What a property read \<open>rulesMap[permissionKey]\<close> can give, when the property exists: a
  function (any function called with the context is a \<open>PermissionRule\<close> in this model), or
  a value that is not a function, given by its truthiness and by the \<open>TypeError\<close> the engine
  raises when the value is called (ECMA-262 fixes that a \<open>TypeError\<close> is raised, not its
  text).
\<close>

datatype ('u, 'r) propertyValue =
    Function "('u, 'r) PermissionRule"
  | NotCallable bool thrown

fun truthy :: "('u, 'r) propertyValue \<Rightarrow> bool" where
  "truthy (Function f) = True"
| "truthy (NotCallable t e) = t"

text \<open>\<open>rule(context)\<close>: calling a value that is not a function throws.\<close>

fun callRule :: "('u, 'r) propertyValue \<Rightarrow> ('u, 'r) PermissionContext \<Rightarrow> settled" where
  "callRule (Function f) context = f context"
| "callRule (NotCallable t e) context = Throws e"

text \<open>
  \<open>Record<string, PermissionRule>\<close> is an object: it has the rules as its own properties
  (functions, by the declared type), and a property read that finds no own property goes on
  to the prototype chain. \<open>inheritedProps\<close> is what the chain provides: nothing for an
  object made by \<open>Object.create(null)\<close>, the members of \<open>Object.prototype\<close> for an object
  literal.
\<close>

record ('u, 'r) PermissionRulesMap =
  ownRules :: "string \<rightharpoonup> ('u, 'r) PermissionRule"
  inheritedProps :: "string \<rightharpoonup> ('u, 'r) propertyValue"

definition getProperty ::
  "('u, 'r) PermissionRulesMap \<Rightarrow> string \<Rightarrow> ('u, 'r) propertyValue option"
where
  "getProperty rulesMap k =
     (case ownRules rulesMap k of
        Some f \<Rightarrow> Some (Function f)
      | None \<Rightarrow> inheritedProps rulesMap k)"

text \<open>
  The members of \<open>Object.prototype\<close>, as a property read followed by the call
  \<open>rule(context)\<close> meets them: the call passes no \<open>this\<close> (it is \<open>undefined\<close>) and one
  argument, the context object. \<open>Object(context)\<close> returns the context;
  \<open>Object.prototype.toString\<close> returns \<open>"[object Undefined]"\<close> for an undefined \<open>this\<close>;
  the other functions convert \<open>this\<close> to an object first and so raise a \<open>TypeError\<close>;
  \<open>__proto__\<close> reads as the prototype object itself, which is not a function.
  \<open>typeError name\<close> is the \<open>TypeError\<close> the engine raises at that member.
\<close>

definition Object_prototype :: "(string \<Rightarrow> thrown) \<Rightarrow> string \<rightharpoonup> ('u, 'r) propertyValue" where
  "Object_prototype typeError =
     map_of
       [(''constructor'', Function (\<lambda>context. Returns JObject)),
        (''toString'', Function (\<lambda>context. Returns (JStr ''[object Undefined]''))),
        (''toLocaleString'', Function (\<lambda>context. Throws (typeError ''toLocaleString''))),
        (''valueOf'', Function (\<lambda>context. Throws (typeError ''valueOf''))),
        (''hasOwnProperty'', Function (\<lambda>context. Throws (typeError ''hasOwnProperty''))),
        (''isPrototypeOf'', Function (\<lambda>context. Throws (typeError ''isPrototypeOf''))),
        (''propertyIsEnumerable'',
           Function (\<lambda>context. Throws (typeError ''propertyIsEnumerable''))),
        (''__defineGetter__'', Function (\<lambda>context. Throws (typeError ''__defineGetter__''))),
        (''__defineSetter__'', Function (\<lambda>context. Throws (typeError ''__defineSetter__''))),
        (''__lookupGetter__'', Function (\<lambda>context. Throws (typeError ''__lookupGetter__''))),
        (''__lookupSetter__'', Function (\<lambda>context. Throws (typeError ''__lookupSetter__''))),
        (''__proto__'', NotCallable True (typeError ''__proto__''))]"

text \<open>An object literal \<open>{k: rule, ...}\<close> and an object without a prototype.\<close>

definition objectLiteral ::
  "(string \<Rightarrow> thrown) \<Rightarrow> (string \<rightharpoonup> ('u, 'r) PermissionRule) \<Rightarrow> ('u, 'r) PermissionRulesMap"
where
  "objectLiteral typeError rules =
     \<lparr>ownRules = rules, inheritedProps = Object_prototype typeError\<rparr>"

definition nullPrototypeObject ::
  "(string \<rightharpoonup> ('u, 'r) PermissionRule) \<Rightarrow> ('u, 'r) PermissionRulesMap"
where
  "nullPrototypeObject rules = \<lparr>ownRules = rules, inheritedProps = Map.empty\<rparr>"

text \<open>
  \<open>PermissionCheck\<close> is declared as \<open>string | string[] | PermissionRule\<close>, but
  \<open>evaluatePermission\<close> inspects the value at run time and has a branch for everything
  else, so the model keeps the other kinds of value as well.
\<close>

datatype ('u, 'r) check =
    CFunction (asFunction: "('u, 'r) PermissionRule")
  | CString (asString: string)
  | CArray (asArray: "string list")
  | CNumber int
  | CBoolean bool
  | CNull
  | CUndefined
  | CObject

fun typeof :: "('u, 'r) check \<Rightarrow> string" where
  "typeof (CFunction f) = ''function''"
| "typeof (CString s) = ''string''"
| "typeof (CArray ks) = ''object''"
| "typeof (CNumber n) = ''number''"
| "typeof (CBoolean b) = ''boolean''"
| "typeof CNull = ''object''"
| "typeof CUndefined = ''undefined''"
| "typeof CObject = ''object''"

fun isArray :: "('u, 'r) check \<Rightarrow> bool" where
  "isArray (CArray ks) = True"
| "isArray c = False"

text \<open>The \<open>mode\<close> parameter, \<open>'any' | 'all'\<close>; a caller that omits it passes \<open>'any'\<close>.\<close>

datatype mode = ModeAny | ModeAll

text \<open>
  \<open>evaluateRule\<close> returns \<open>{result, duration, error?}\<close>; a \<open>RuleEvaluationResult\<close> has the
  same three fields and the rule's name.
\<close>

record RuleOutcome =
  result :: bool
  duration :: real
  error :: "string option"

record RuleEvaluationResult = RuleOutcome +
  rule :: string

record PermissionResult =
  allowed :: bool
  ruleResults :: "RuleEvaluationResult list"

section \<open>Rule engine (core/ruleEngine.ts)\<close>

text \<open>
  The settlement of the promise an \<open>async\<close> function returns: fulfilled with a value, or
  rejected. A rejection lists the values it may carry as its reason: one for a single
  \<open>async\<close> call, and for \<open>Promise.all\<close> those of all inputs that reject, since it rejects
  with the reason of whichever input rejects first in time. \<open>await\<close> continues with the
  value of a fulfilled promise and propagates a rejection; \<open>Promise_all\<close> gathers the values
  by position.
\<close>

datatype 'a promise = Fulfilled 'a | Rejected "thrown list"

fun await :: "'a promise \<Rightarrow> ('a \<Rightarrow> 'b promise) \<Rightarrow> 'b promise" where
  "await (Fulfilled v) k = k v"
| "await (Rejected es) k = Rejected es"

fun Promise_all :: "'a promise list \<Rightarrow> 'a list promise" where
  "Promise_all [] = Fulfilled []"
| "Promise_all (p # ps) =
     (case p of
        Fulfilled v \<Rightarrow>
          (case Promise_all ps of
             Fulfilled vs \<Rightarrow> Fulfilled (v # vs)
           | Rejected es \<Rightarrow> Rejected es)
      | Rejected e \<Rightarrow>
          (case Promise_all ps of
             Fulfilled vs \<Rightarrow> Rejected e
           | Rejected es \<Rightarrow> Rejected (e @ es)))"

definition includes_js :: "'a list \<Rightarrow> 'a \<Rightarrow> bool" where
  "includes_js xs x = (x \<in> set xs)"

text \<open>
  \<open>performance.now()\<close> is read twice by each call of \<open>evaluateRule\<close>: before the rule is
  called and after its result has been awaited. The two readings are a parameter
  \<open>(startTime, endTime)\<close> of the call. The \<open>catch\<close> block builds its result from
  \<open>error instanceof Error ? error.message : String(error)\<close>; when \<open>String(error)\<close> throws,
  the exception leaves the block and the promise of \<open>evaluateRule\<close> rejects with it.
\<close>

definition catchBlock :: "real \<times> real \<Rightarrow> thrown \<Rightarrow> RuleOutcome promise" where
  "catchBlock now e =
     (if instanceof_Error e
      then Fulfilled \<lparr>result = False, duration = snd now - fst now, error = message e\<rparr>
      else (case String e of
              Inr s \<Rightarrow>
                Fulfilled \<lparr>result = False, duration = snd now - fst now, error = Some s\<rparr>
            | Inl e' \<Rightarrow> Rejected [e']))"

definition evaluateRule ::
  "real \<times> real \<Rightarrow> ('u, 'r) propertyValue \<Rightarrow> ('u, 'r) PermissionContext \<Rightarrow> RuleOutcome promise"
where
  "evaluateRule now rl context =
     (let startTime = fst now in
      case callRule rl context of
        Returns v \<Rightarrow>
          Fulfilled \<lparr>result = Boolean v, duration = snd now - startTime, error = None\<rparr>
      | Fulfils v \<Rightarrow>
          Fulfilled \<lparr>result = Boolean v, duration = snd now - startTime, error = None\<rparr>
      | Throws e \<Rightarrow> catchBlock now e
      | Rejects e \<Rightarrow> catchBlock now e)"

text \<open>
  \<open>if (rulesMap[permissionKey]) return rulesMap[permissionKey]\<close>: the test is for a truthy
  value of the property read, whether the property is the object's own or inherited.
\<close>

definition resolveStringRule ::
  "string \<Rightarrow> ('u, 'r) PermissionRulesMap \<Rightarrow> ('u, 'r) PermissionContext
     \<Rightarrow> ('u, 'r) propertyValue"
where
  "resolveStringRule permissionKey rulesMap context =
     (case getProperty rulesMap permissionKey of
        Some v \<Rightarrow>
          (if truthy v then v
           else Function (\<lambda>ctx. Returns (JBool (includes_js (permissions ctx) permissionKey
                                  \<or> includes_js (roles ctx) permissionKey))))
      | None \<Rightarrow>
          Function (\<lambda>ctx. Returns (JBool (includes_js (permissions ctx) permissionKey
                                  \<or> includes_js (roles ctx) permissionKey))))"

definition traceEntry :: "string \<Rightarrow> RuleOutcome \<Rightarrow> RuleEvaluationResult" where
  "traceEntry name evaluation =
     \<lparr>result = result evaluation, duration = duration evaluation,
      error = error evaluation, rule = name\<rparr>"

text \<open>
  \<open>clock i\<close> gives the two clock readings of the \<open>i\<close>-th call of \<open>evaluateRule\<close> that one
  call of \<open>evaluatePermission\<close> makes (calls are started in key order). The array branch
  maps the keys to promises, awaits \<open>Promise.all\<close> of them and pushes the gathered entries
  onto the empty \<open>ruleResults\<close>.
\<close>

definition evaluatePermission ::
  "(nat \<Rightarrow> real \<times> real) \<Rightarrow> ('u, 'r) check \<Rightarrow> ('u, 'r) PermissionContext
     \<Rightarrow> ('u, 'r) PermissionRulesMap \<Rightarrow> mode \<Rightarrow> PermissionResult promise"
where
  "evaluatePermission clock chk context rulesMap md =
     (if typeof chk = ''function'' then
        await (evaluateRule (clock 0) (Function (asFunction chk)) context) (\<lambda>evaluation.
          Fulfilled \<lparr>allowed = result evaluation,
                     ruleResults = [] @ [traceEntry ''inline'' evaluation]\<rparr>)
      else if typeof chk = ''string'' then
        (let rl = resolveStringRule (asString chk) rulesMap context in
         await (evaluateRule (clock 0) rl context) (\<lambda>evaluation.
           Fulfilled \<lparr>allowed = result evaluation,
                      ruleResults = [] @ [traceEntry (asString chk) evaluation]\<rparr>))
      else if isArray chk then
        await (Promise_all (map (\<lambda>(i, key).
                 (let rl = resolveStringRule key rulesMap context in
                  await (evaluateRule (clock i) rl context) (\<lambda>evaluation.
                    Fulfilled (traceEntry key evaluation))))
               (enumerate 0 (asArray chk))))
          (\<lambda>evaluations.
            Fulfilled \<lparr>allowed = (if md = ModeAll then list_all result evaluations
                                  else list_ex result evaluations),
                       ruleResults = [] @ evaluations\<rparr>)
      else
        Fulfilled \<lparr>allowed = False,
                   ruleResults = [\<lparr>result = False, duration = 0,
                                   error = Some ''Invalid permission check type'',
                                   rule = ''unknown''\<rparr>]\<rparr>)"

definition createPermissionContext ::
  "'u \<Rightarrow> 'r option \<Rightarrow> string list \<Rightarrow> string list \<Rightarrow> (string \<rightharpoonup> bool)
     \<Rightarrow> ('u, 'r) PermissionContext"
where
  "createPermissionContext u res rs ps fs =
     \<lparr>user = u, resource = res, roles = rs, permissions = ps, flags = fs\<rparr>"

section \<open>Dev tools store (devtools/DevStore.ts)\<close>

text \<open>
  \<open>PermissionEvaluation\<close>, the record the store keeps of one evaluation. Its fields carry
  the prefix \<open>ev_\<close>, since \<open>resource\<close>, \<open>allowed\<close> and \<open>ruleResults\<close> are already fields of
  the records above.
\<close>

record PermissionEvaluation =
  ev_id :: string
  ev_timestamp :: int
  ev_check :: "string + string list"
  ev_resource :: "jsval option"
  ev_allowed :: bool
  ev_ruleResults :: "RuleEvaluationResult list"
  ev_component :: "string option"
  ev_mode :: "mode option"

text \<open>
  The store mutates the arrays and objects that hold the overrides in place
  (\<open>splice\<close>, \<open>push\<close>, property assignment), and \<open>getState\<close> copies only the fields of
  the state object. So an override field holds a reference, and the arrays and flag objects
  live in a heap. The \<open>evaluations\<close> array is never mutated in place (each append builds a
  new array), so it is kept by value. An optional field that is \<open>undefined\<close> is \<open>None\<close>.
\<close>

type_synonym ref = nat

text \<open>
  A flags object (\<open>Record<string, boolean>\<close>): its own properties, and whether it inherits
  from \<open>Object.prototype\<close>, as an object literal and the result of \<open>{...obj}\<close> do
  (an object made by \<open>Object.create(null)\<close> does not).
\<close>

record flagsObject =
  ownFlags :: "string \<rightharpoonup> bool"
  plain :: bool

record DevToolsState =
  evaluations :: "PermissionEvaluation list"
  isOpen :: bool
  overrideUser :: "jsval option"
  overrideRoles :: "ref option"
  overridePermissions :: "ref option"
  overrideFlags :: "ref option"

text \<open>
  A listener is a callback the store only calls; it is known by its identity, and each call
  is logged with the snapshot object it received (\<open>calls\<close>, oldest first). \<open>nextRef\<close> is
  the next unused reference.
\<close>

type_synonym listener = nat

record DevStore =
  state :: DevToolsState
  listeners :: "listener list"
  arrays :: "ref \<Rightarrow> string list"
  flagObjects :: "ref \<Rightarrow> flagsObject"
  nextRef :: ref
  calls :: "(listener \<times> DevToolsState) list"

definition noArrays :: "ref \<Rightarrow> string list" where
  "noArrays a = []"

definition noFlagObjects :: "ref \<Rightarrow> flagsObject" where
  "noFlagObjects a = \<lparr>ownFlags = Map.empty, plain = True\<rparr>"

text \<open>The store as constructed: the exported instance \<open>devStore\<close> before any call.\<close>

definition devStore :: DevStore where
  "devStore =
     \<lparr>state = \<lparr>evaluations = [], isOpen = False, overrideUser = None,
               overrideRoles = None, overridePermissions = None, overrideFlags = None\<rparr>,
      listeners = [], arrays = noArrays, flagObjects = noFlagObjects, nextRef = 0,
      calls = []\<rparr>"

text \<open>
  \<open>[...xs]\<close>: a fresh array with the same content. \<open>{...obj}\<close>: a fresh object literal
  with the own properties of \<open>obj\<close>. A caller's array or object enters the heap the same
  way, as it is.
\<close>

definition newArray :: "string list \<Rightarrow> DevStore \<Rightarrow> ref \<times> DevStore" where
  "newArray xs s =
     (nextRef s, s\<lparr>arrays := (arrays s)(nextRef s := xs), nextRef := Suc (nextRef s)\<rparr>)"

definition newFlagObject :: "flagsObject \<Rightarrow> DevStore \<Rightarrow> ref \<times> DevStore" where
  "newFlagObject obj s =
     (nextRef s, s\<lparr>flagObjects := (flagObjects s)(nextRef s := obj), nextRef := Suc (nextRef s)\<rparr>)"

definition spreadFlags :: "(string \<rightharpoonup> bool) \<Rightarrow> flagsObject" where
  "spreadFlags currentFlags = \<lparr>ownFlags = currentFlags, plain = True\<rparr>"

text \<open>\<open>Array.prototype.indexOf\<close> (\<open>-1\<close> when absent) and \<open>splice(start, deleteCount)\<close>.\<close>

fun indexOf :: "'a list \<Rightarrow> 'a \<Rightarrow> int" where
  "indexOf [] x = - 1"
| "indexOf (y # ys) x =
     (if y = x then 0
      else (let i = indexOf ys x in if i = - 1 then - 1 else i + 1))"

definition splice_js :: "nat \<Rightarrow> nat \<Rightarrow> 'a list \<Rightarrow> 'a list" where
  "splice_js start deleteCount xs = take start xs @ drop (start + deleteCount) xs"

text \<open>
  The names of the members of \<open>Object.prototype\<close>. All of them read as truthy values
  (functions, and for \<open>__proto__\<close> the prototype object); all are writable data properties
  except \<open>__proto__\<close>, an accessor whose setter ignores a value that is not an object.
\<close>

definition Object_prototype_names :: "string list" where
  "Object_prototype_names =
     [''constructor'', ''toString'', ''toLocaleString'', ''valueOf'', ''hasOwnProperty'',
      ''isPrototypeOf'', ''propertyIsEnumerable'', ''__defineGetter__'', ''__defineSetter__'',
      ''__lookupGetter__'', ''__lookupSetter__'', ''__proto__'']"

text \<open>
  The property read \<open>obj[k]\<close> on a flags object: the own property if there is one,
  otherwise what the prototype chain gives, otherwise \<open>undefined\<close>.
\<close>

datatype flagRead = OwnValue bool | InheritedMember | Missing

definition getProp :: "flagsObject \<Rightarrow> string \<Rightarrow> flagRead" where
  "getProp obj k =
     (case ownFlags obj k of
        Some b \<Rightarrow> OwnValue b
      | None \<Rightarrow> (if plain obj \<and> k \<in> set Object_prototype_names then InheritedMember
                 else Missing))"

text \<open>\<open>!x\<close> for a property read: \<open>!undefined\<close> is \<open>true\<close>, and \<open>!\<close> of a function or object is \<open>false\<close>.\<close>

fun notProp :: "flagRead \<Rightarrow> bool" where
  "notProp (OwnValue b) = (\<not> b)"
| "notProp InheritedMember = False"
| "notProp Missing = True"

text \<open>
  The assignment \<open>obj[k] = v\<close> of a boolean: it writes the own property, creating it if
  need be, except that on an object inheriting from \<open>Object.prototype\<close> without an own
  \<open>__proto__\<close> the assignment to \<open>__proto__\<close> calls the inherited setter, which does nothing for
  a boolean.
\<close>

definition setProp :: "flagsObject \<Rightarrow> string \<Rightarrow> bool \<Rightarrow> flagsObject" where
  "setProp obj k v =
     (if ownFlags obj k = None \<and> plain obj \<and> k = ''__proto__'' then obj
      else obj\<lparr>ownFlags := (ownFlags obj)(k \<mapsto> v)\<rparr>)"

definition getState :: "DevStore \<Rightarrow> DevToolsState" where
  "getState s = state s"

text \<open>
  \<open>listeners\<close> is a \<open>Set\<close>: adding a member again changes nothing, and iteration is in
  insertion order.
\<close>

definition subscribe :: "listener \<Rightarrow> DevStore \<Rightarrow> DevStore" where
  "subscribe l s =
     s\<lparr>listeners := (if l \<in> set (listeners s) then listeners s else listeners s @ [l])\<rparr>"

definition unsubscribe :: "listener \<Rightarrow> DevStore \<Rightarrow> DevStore" where
  "unsubscribe l s = s\<lparr>listeners := removeAll l (listeners s)\<rparr>"

definition notify :: "DevStore \<Rightarrow> DevStore" where
  "notify s =
     (let currentState = getState s
      in s\<lparr>calls := calls s @ map (\<lambda>l. (l, currentState)) (listeners s)\<rparr>)"

definition addEvaluation :: "PermissionEvaluation \<Rightarrow> DevStore \<Rightarrow> DevStore" where
  "addEvaluation evaluation s =
     notify (s\<lparr>state := (state s)\<lparr>evaluations :=
                 take 100 (evaluation # evaluations (state s))\<rparr>\<rparr>)"

definition clearEvaluations :: "DevStore \<Rightarrow> DevStore" where
  "clearEvaluations s = notify (s\<lparr>state := (state s)\<lparr>evaluations := []\<rparr>\<rparr>)"

definition togglePanel :: "DevStore \<Rightarrow> DevStore" where
  "togglePanel s = notify (s\<lparr>state := (state s)\<lparr>isOpen := \<not> isOpen (state s)\<rparr>\<rparr>)"

definition setOpen :: "bool \<Rightarrow> DevStore \<Rightarrow> DevStore" where
  "setOpen b s = notify (s\<lparr>state := (state s)\<lparr>isOpen := b\<rparr>\<rparr>)"

definition setOverrideUser :: "jsval option \<Rightarrow> DevStore \<Rightarrow> DevStore" where
  "setOverrideUser u s = notify (s\<lparr>state := (state s)\<lparr>overrideUser := u\<rparr>\<rparr>)"

definition setOverrideRoles :: "ref option \<Rightarrow> DevStore \<Rightarrow> DevStore" where
  "setOverrideRoles rs s = notify (s\<lparr>state := (state s)\<lparr>overrideRoles := rs\<rparr>\<rparr>)"

definition setOverridePermissions :: "ref option \<Rightarrow> DevStore \<Rightarrow> DevStore" where
  "setOverridePermissions ps s =
     notify (s\<lparr>state := (state s)\<lparr>overridePermissions := ps\<rparr>\<rparr>)"

definition setOverrideFlags :: "ref option \<Rightarrow> DevStore \<Rightarrow> DevStore" where
  "setOverrideFlags fs s = notify (s\<lparr>state := (state s)\<lparr>overrideFlags := fs\<rparr>\<rparr>)"

text \<open>
  \<open>this.state.overrideRoles || [...currentRoles]\<close>: an array is truthy even when empty, so
  the existing array is taken whenever the field is set, and it is then changed in place.
\<close>

definition toggleRole :: "string \<Rightarrow> string list \<Rightarrow> DevStore \<Rightarrow> DevStore" where
  "toggleRole role currentRoles s =
     (let (r, s1) = (case overrideRoles (state s) of
                       Some a \<Rightarrow> (a, s)
                     | None \<Rightarrow> newArray currentRoles s);
          index = indexOf (arrays s1 r) role;
          s2 = (if index > - 1
                then s1\<lparr>arrays := (arrays s1)(r := splice_js (nat index) 1 (arrays s1 r))\<rparr>
                else s1\<lparr>arrays := (arrays s1)(r := arrays s1 r @ [role])\<rparr>)
      in setOverrideRoles (if length (arrays s2 r) > 0 then Some r else None) s2)"

definition togglePermission :: "string \<Rightarrow> string list \<Rightarrow> DevStore \<Rightarrow> DevStore" where
  "togglePermission permission currentPermissions s =
     (let (r, s1) = (case overridePermissions (state s) of
                       Some a \<Rightarrow> (a, s)
                     | None \<Rightarrow> newArray currentPermissions s);
          index = indexOf (arrays s1 r) permission;
          s2 = (if index > - 1
                then s1\<lparr>arrays := (arrays s1)(r := splice_js (nat index) 1 (arrays s1 r))\<rparr>
                else s1\<lparr>arrays := (arrays s1)(r := arrays s1 r @ [permission])\<rparr>)
      in setOverridePermissions (if length (arrays s2 r) > 0 then Some r else None) s2)"

definition toggleFlag :: "string \<Rightarrow> (string \<rightharpoonup> bool) \<Rightarrow> DevStore \<Rightarrow> DevStore" where
  "toggleFlag flag currentFlags s =
     (let (r, s1) = (case overrideFlags (state s) of
                       Some a \<Rightarrow> (a, s)
                     | None \<Rightarrow> newFlagObject (spreadFlags currentFlags) s);
          s2 = s1\<lparr>flagObjects := (flagObjects s1)
                  (r := setProp (flagObjects s1 r) flag (notProp (getProp (flagObjects s1 r) flag)))\<rparr>
      in setOverrideFlags (Some r) s2)"

definition resetOverrides :: "DevStore \<Rightarrow> DevStore" where
  "resetOverrides s =
     notify (s\<lparr>state := (state s)\<lparr>overrideUser := None, overrideRoles := None,
                 overridePermissions := None, overrideFlags := None\<rparr>\<rparr>)"

text \<open>
  The public operations of the store as a caller invokes them, and a run of them. A caller
  of a setter passes an array or object of its own, which enters the heap under a new
  reference; \<open>unsubscribe\<close> is the function \<open>subscribe\<close> returned.
\<close>

datatype operation =
    AddEvaluation PermissionEvaluation
  | ClearEvaluations
  | TogglePanel
  | SetOpen bool
  | SetOverrideUser "jsval option"
  | SetOverrideRoles "string list option"
  | SetOverridePermissions "string list option"
  | SetOverrideFlags "flagsObject option"
  | ToggleRole string "string list"
  | TogglePermission string "string list"
  | ToggleFlag string "string \<rightharpoonup> bool"
  | ResetOverrides
  | Subscribe listener
  | Unsubscribe listener

fun exec :: "operation \<Rightarrow> DevStore \<Rightarrow> DevStore" where
  "exec (AddEvaluation e) s = addEvaluation e s"
| "exec ClearEvaluations s = clearEvaluations s"
| "exec TogglePanel s = togglePanel s"
| "exec (SetOpen b) s = setOpen b s"
| "exec (SetOverrideUser u) s = setOverrideUser u s"
| "exec (SetOverrideRoles None) s = setOverrideRoles None s"
| "exec (SetOverrideRoles (Some xs)) s =
     (let (r, s1) = newArray xs s in setOverrideRoles (Some r) s1)"
| "exec (SetOverridePermissions None) s = setOverridePermissions None s"
| "exec (SetOverridePermissions (Some xs)) s =
     (let (r, s1) = newArray xs s in setOverridePermissions (Some r) s1)"
| "exec (SetOverrideFlags None) s = setOverrideFlags None s"
| "exec (SetOverrideFlags (Some fs)) s =
     (let (r, s1) = newFlagObject fs s in setOverrideFlags (Some r) s1)"
| "exec (ToggleRole role currentRoles) s = toggleRole role currentRoles s"
| "exec (TogglePermission p currentPermissions) s = togglePermission p currentPermissions s"
| "exec (ToggleFlag f currentFlags) s = toggleFlag f currentFlags s"
| "exec ResetOverrides s = resetOverrides s"
| "exec (Subscribe l) s = subscribe l s"
| "exec (Unsubscribe l) s = unsubscribe l s"

definition run :: "operation list \<Rightarrow> DevStore \<Rightarrow> DevStore" where
  "run ops s = fold exec ops s"

text \<open>
  What reading an override field of a state object (the store's own, or a snapshot a
  listener holds) gives while the store is \<open>s\<close>: the current content of the array or
  object the field refers to.
\<close>

definition rolesOf :: "DevToolsState \<Rightarrow> DevStore \<Rightarrow> string list option" where
  "rolesOf st s = map_option (arrays s) (overrideRoles st)"

definition permissionsOf :: "DevToolsState \<Rightarrow> DevStore \<Rightarrow> string list option" where
  "permissionsOf st s = map_option (arrays s) (overridePermissions st)"

definition flagsOf :: "DevToolsState \<Rightarrow> DevStore \<Rightarrow> flagsObject option" where
  "flagsOf st s = map_option (flagObjects s) (overrideFlags st)"

text \<open>The own flag \<open>k\<close> of the flags override of the store, if the override and the flag exist.\<close>

definition ownFlagOf :: "DevStore \<Rightarrow> string \<Rightarrow> bool option" where
  "ownFlagOf s k =
     (case overrideFlags (state s) of
        None \<Rightarrow> None
      | Some r \<Rightarrow> ownFlags (flagObjects s r) k)"

section \<open>Auxiliary definitions for the proofs\<close>




text \<open>What \<open>indexOf\<close>, \<open>splice\<close> and \<open>push\<close> do to the working array of a toggle.\<close>

definition flipMember :: "string \<Rightarrow> string list \<Rightarrow> string list" where
  "flipMember k ws = (if k \<in> set ws then remove1 k ws else ws @ [k])"

text \<open>The operations that change the state object; the other two change the listener set.\<close>

fun notifies :: "operation \<Rightarrow> bool" where
  "notifies (Subscribe l) = False"
| "notifies (Unsubscribe l) = False"
| "notifies op = True"

section \<open>Sample inputs\<close>

definition sampleClock :: "nat \<Rightarrow> real \<times> real" where
  "sampleClock i = (real i, real i + 1)"

definition noFlags :: "string \<rightharpoonup> bool" where
  "noFlags = Map.empty"

definition anonymous :: "(unit, unit) PermissionContext" where
  "anonymous = createPermissionContext () None [] [] noFlags"

definition adminUser :: "(unit, unit) PermissionContext" where
  "adminUser = createPermissionContext () None [''admin''] [] noFlags"

definition ruleTrue :: "(unit, unit) PermissionRule" where
  "ruleTrue ctx = Returns (JBool True)"

definition ruleFalse :: "(unit, unit) PermissionRule" where
  "ruleFalse ctx = Returns (JBool False)"

text \<open>The \<open>TypeError\<close>s of one engine, with texts of its own.\<close>

definition notAFunction :: thrown where
  "notAFunction =
     Thrown True (Some ''rule is not a function'') (Inr ''TypeError: rule is not a function'')"

definition cannotConvertThis :: thrown where
  "cannotConvertThis =
     Thrown True (Some ''Cannot convert undefined or null to object'')
       (Inr ''TypeError: Cannot convert undefined or null to object'')"

definition sampleTypeError :: "string \<Rightarrow> thrown" where
  "sampleTypeError name = (if name = ''__proto__'' then notAFunction else cannotConvertThis)"

text \<open>The rules \<open>{admin: () => true, edit: () => false}\<close> and the empty rules \<open>{}\<close>.\<close>

definition adminEditRules :: "(unit, unit) PermissionRulesMap" where
  "adminEditRules =
     objectLiteral sampleTypeError (map_of [(''admin'', ruleTrue), (''edit'', ruleFalse)])"

definition noRules :: "(unit, unit) PermissionRulesMap" where
  "noRules = objectLiteral sampleTypeError Map.empty"








definition sampleEvaluation :: "nat \<Rightarrow> PermissionEvaluation" where
  "sampleEvaluation n =
     \<lparr>ev_id = ''eval'', ev_timestamp = int n, ev_check = Inl ''admin'', ev_resource = None,
      ev_allowed = True, ev_ruleResults = [], ev_component = None, ev_mode = Some ModeAny\<rparr>"

definition sampleBatch :: "PermissionEvaluation list" where
  "sampleBatch = map sampleEvaluation [0..<101]"

definition toggledOnce :: DevStore where
  "toggledOnce = toggleRole ''x'' [''a'', ''b''] devStore"

definition toggledTwice :: DevStore where
  "toggledTwice = toggleRole ''x'' [''a'', ''b''] toggledOnce"

definition duplicateToggled :: DevStore where
  "duplicateToggled = toggleRole ''a'' [''a'', ''a''] devStore"

definition watchedOnce :: DevStore where
  "watchedOnce = toggleRole ''x'' [''a'', ''b''] (subscribe 7 devStore)"

definition watchedTwice :: DevStore where
  "watchedTwice = toggleRole ''y'' [''a'', ''b''] watchedOnce"

text \<open>
  Flag toggles from the initial store with the base flags \<open>{}\<close>: \<open>"beta"\<close> three times,
  and once each the names \<open>"toString"\<close> and \<open>"__proto__"\<close>.
\<close>

definition flagOn :: DevStore where
  "flagOn = toggleFlag ''beta'' noFlags devStore"

definition flagOff :: DevStore where
  "flagOff = toggleFlag ''beta'' noFlags flagOn"

definition flagOnAgain :: DevStore where
  "flagOnAgain = toggleFlag ''beta'' noFlags flagOff"

definition toStringToggled :: DevStore where
  "toStringToggled = toggleFlag ''toString'' noFlags devStore"

definition protoToggled :: DevStore where
  "protoToggled = toggleFlag ''__proto__'' noFlags devStore"

section \<open>The rule engine: evaluation of one rule and of a check\<close>

lemmas engine_defs =
  evaluatePermission_def evaluateRule_def catchBlock_def resolveStringRule_def
  getProperty_def traceEntry_def createPermissionContext_def includes_js_def
  objectLiteral_def Object_prototype_def enumerate_eq_zip











subsection \<open>Resolution of a key\<close>

lemma resolveStringRule_own:
  "ownRules rulesMap key = Some r \<Longrightarrow> resolveStringRule key rulesMap context = Function r"
  by (simp add: resolveStringRule_def getProperty_def)

lemma resolveStringRule_inherited:
  "ownRules rulesMap key = None \<Longrightarrow> inheritedProps rulesMap key = Some v \<Longrightarrow> truthy v \<Longrightarrow>
   resolveStringRule key rulesMap context = v"
  by (simp add: resolveStringRule_def getProperty_def)

lemma resolveStringRule_membership:
  "ownRules rulesMap key = None \<Longrightarrow> inheritedProps rulesMap key = None \<Longrightarrow>
   callRule (resolveStringRule key rulesMap context) ctx
     = Returns (JBool (key \<in> set (permissions ctx) \<or> key \<in> set (roles ctx)))"
  by (simp add: resolveStringRule_def getProperty_def includes_js_def)

text \<open>
  C2. The key is looked up with \<open>rulesMap[permissionKey]\<close>, which also finds what an
  object literal inherits from \<open>Object.prototype\<close>. With the empty rules \<open>{}\<close> and a context
  without roles and permissions, the key \<open>"toString"\<close> is not a key of the rules map, yet it
  resolves to \<open>Object.prototype.toString\<close>, not to the membership rule: the rule returns a
  non-empty string and the check is allowed. The key \<open>"__proto__"\<close> resolves to the
  prototype object, which is not callable; calling it throws.
\<close>

theorem inherited_key_is_taken_for_a_rule:
  "ownRules noRules ''toString'' = None
   \<and> roles anonymous = [] \<and> permissions anonymous = []
   \<and> callRule (resolveStringRule ''toString'' noRules anonymous) anonymous
       = Returns (JStr ''[object Undefined]'')
   \<and> evaluatePermission sampleClock (CString ''toString'') anonymous noRules ModeAny
       = Fulfilled \<lparr>allowed = True,
           ruleResults = [\<lparr>result = True, duration = 1, error = None, rule = ''toString''\<rparr>]\<rparr>
   \<and> ownRules noRules ''__proto__'' = None
   \<and> resolveStringRule ''__proto__'' noRules anonymous = NotCallable True notAFunction
   \<and> callRule (resolveStringRule ''__proto__'' noRules anonymous) anonymous = Throws notAFunction"
  by (simp add: engine_defs sampleClock_def anonymous_def noRules_def sampleTypeError_def)

text \<open>
  For a key that the rules map has as its own, and for a key that it neither has nor
  inherits, resolution is as C2 says; with roles \<open>["admin"]\<close> and no permissions,
  \<open>"admin"\<close> is allowed and \<open>"editor"\<close> denied.
\<close>

lemma resolveStringRule_examples:
  "resolveStringRule ''admin'' adminEditRules adminUser = Function ruleTrue
   \<and> evaluatePermission sampleClock (CString ''admin'') adminUser noRules ModeAny
       = Fulfilled \<lparr>allowed = True,
           ruleResults = [\<lparr>result = True, duration = 1, error = None, rule = ''admin''\<rparr>]\<rparr>
   \<and> evaluatePermission sampleClock (CString ''editor'') adminUser noRules ModeAny
       = Fulfilled \<lparr>allowed = False,
           ruleResults = [\<lparr>result = False, duration = 1, error = None, rule = ''editor''\<rparr>]\<rparr>"
  by (simp add: engine_defs sampleClock_def adminUser_def adminEditRules_def noRules_def)

subsection \<open>Failing rules\<close>







text \<open>
  C4. An empty key array is allowed under mode \<open>all\<close> and denied under mode \<open>any\<close>, with an
  empty trace, for every context and rules map.
\<close>

theorem empty_keyset:
  "evaluatePermission clock (CArray []) context rulesMap ModeAll
     = Fulfilled \<lparr>allowed = True, ruleResults = []\<rparr>
   \<and> evaluatePermission clock (CArray []) context rulesMap ModeAny
     = Fulfilled \<lparr>allowed = False, ruleResults = []\<rparr>"
  by (simp add: evaluatePermission_def)

theorem empty_keyset_witness:
  "evaluatePermission sampleClock (CArray []) adminUser adminEditRules ModeAll
     = Fulfilled \<lparr>allowed = True, ruleResults = []\<rparr>
   \<and> evaluatePermission sampleClock (CArray []) adminUser adminEditRules ModeAny
     = Fulfilled \<lparr>allowed = False, ruleResults = []\<rparr>"
  using empty_keyset [of sampleClock adminUser adminEditRules]
  by simp

text \<open>
  C5. A check that is neither a function, nor a string, nor an array is denied: the promise
  fulfils (nothing is thrown) with \<open>allowed\<close> false and the single trace entry
  \<open>{rule: "unknown", result: false, duration: 0, error: "Invalid permission check type"}\<close>,
  for every context, rules map and mode.
\<close>

theorem unrecognized_check_denied:
  "typeof chk \<noteq> ''function'' \<Longrightarrow> typeof chk \<noteq> ''string'' \<Longrightarrow> \<not> isArray chk \<Longrightarrow>
   evaluatePermission clock chk context rulesMap md
     = Fulfilled \<lparr>allowed = False,
         ruleResults = [\<lparr>result = False, duration = 0,
                         error = Some ''Invalid permission check type'', rule = ''unknown''\<rparr>]\<rparr>"
  by (simp add: evaluatePermission_def)

theorem unrecognized_check_denied_witness:
  "typeof (CNumber 42 :: (unit, unit) check) \<noteq> ''function''
   \<and> typeof (CNumber 42 :: (unit, unit) check) \<noteq> ''string''
   \<and> \<not> isArray (CNumber 42 :: (unit, unit) check)
   \<and> evaluatePermission sampleClock (CNumber 42) adminUser adminEditRules ModeAll
     = Fulfilled \<lparr>allowed = False,
         ruleResults = [\<lparr>result = False, duration = 0,
                         error = Some ''Invalid permission check type'', rule = ''unknown''\<rparr>]\<rparr>"
  using unrecognized_check_denied [of "CNumber 42" sampleClock adminUser adminEditRules ModeAll]
  by simp

section \<open>The dev tools store\<close>

lemmas store_defs =
  toggleRole_def togglePermission_def toggleFlag_def newArray_def newFlagObject_def
  setOverrideRoles_def setOverridePermissions_def setOverrideFlags_def resetOverrides_def
  subscribe_def unsubscribe_def rolesOf_def permissionsOf_def flagsOf_def devStore_def
  splice_js_def getProp_def setProp_def spreadFlags_def Object_prototype_names_def
  noArrays_def noFlagObjects_def Let_def

lemma notify_fields [simp]:
  "state (notify s) = state s"
  "listeners (notify s) = listeners s"
  "arrays (notify s) = arrays s"
  "flagObjects (notify s) = flagObjects s"
  "nextRef (notify s) = nextRef s"
  "calls (notify s) = calls s @ map (\<lambda>l. (l, state s)) (listeners s)"
  by (simp_all add: notify_def getState_def)

subsection \<open>Array primitives\<close>

lemma indexOf_ge: "- 1 \<le> indexOf xs x"
  by (induction xs) (auto simp: Let_def)

lemma indexOf_found: "(indexOf xs x > - 1) = (x \<in> set xs)"
proof (induction xs)
  case Nil
  show ?case by simp
next
  case (Cons y ys)
  have "- 1 \<le> indexOf ys x" by (rule indexOf_ge)
  with Cons show ?case by (auto simp: Let_def)
qed

lemma splice_indexOf:
  "x \<in> set xs \<Longrightarrow> splice_js (nat (indexOf xs x)) (Suc 0) xs = remove1 x xs"
proof (induction xs)
  case Nil
  then show ?case by simp
next
  case (Cons y ys)
  show ?case
  proof (cases "y = x")
    case True
    then show ?thesis by (simp add: splice_js_def)
  next
    case False
    with Cons.prems have mem: "x \<in> set ys" by simp
    then have pos: "indexOf ys x > - 1" by (simp add: indexOf_found)
    then have "nat (indexOf ys x + 1) = Suc (nat (indexOf ys x))" by simp
    with False pos Cons.IH [OF mem] show ?thesis
      by (simp add: splice_js_def Let_def)
  qed
qed

lemma remove1_last_occurrence: "count_list ws k \<le> 1 \<Longrightarrow> k \<notin> set (remove1 k ws)"
proof (induction ws)
  case Nil
  then show ?case by simp
next
  case (Cons y ys)
  then show ?case by (auto simp: count_list_0_iff split: if_splits)
qed

subsection \<open>Evaluation history\<close>

lemma evaluations_addEvaluation:
  "evaluations (state (addEvaluation e s)) = take 100 (e # evaluations (state s))"
  by (simp add: addEvaluation_def)

lemma take_append_take: "take n (xs @ take n ys) = take n (xs @ ys)"
  by (simp add: min_def)

lemma evaluations_fold_addEvaluation:
  "length (evaluations (state s)) \<le> 100 \<Longrightarrow>
   evaluations (state (fold addEvaluation rs s)) = take 100 (rev rs @ evaluations (state s))"
proof (induction rs arbitrary: s)
  case Nil
  then show ?case by simp
next
  case (Cons r rs)
  have "length (evaluations (state (addEvaluation r s))) \<le> 100"
    by (simp add: evaluations_addEvaluation)
  then have "evaluations (state (fold addEvaluation (r # rs) s))
          = take 100 (rev rs @ take 100 (r # evaluations (state s)))"
    by (simp add: Cons.IH evaluations_addEvaluation)
  also have "\<dots> = take 100 (rev rs @ r # evaluations (state s))"
    by (rule take_append_take)
  finally show ?case by simp
qed

lemma exec_history_bounded:
  "length (evaluations (state s)) \<le> 100 \<Longrightarrow> length (evaluations (state (exec op s))) \<le> 100"
  by (cases "(op, s)" rule: exec.cases)
     (auto simp: addEvaluation_def clearEvaluations_def togglePanel_def setOpen_def
        setOverrideUser_def setOverrideRoles_def setOverridePermissions_def
        setOverrideFlags_def toggleRole_def togglePermission_def toggleFlag_def
        resetOverrides_def subscribe_def unsubscribe_def newArray_def newFlagObject_def
        Let_def split: prod.splits option.splits)

lemma run_history_bounded:
  "length (evaluations (state s)) \<le> 100 \<Longrightarrow> length (evaluations (state (run ops s))) \<le> 100"
  unfolding run_def
  by (induction ops arbitrary: s) (simp_all add: exec_history_bounded)

text \<open>
  C6. Appending a record puts it at index 0 and keeps the first 100 entries of the
  lengthened history, so the oldest entry is the one dropped; the history never has more
  than 100 entries, after an append and after any run of store operations from the initial
  store. Appending 101 records to the initial store, the first of which is not appended
  again, leaves exactly 100, without the first and with the last at index 0.
\<close>

theorem history_bounded_newest_first:
  "evaluations (state (addEvaluation e s)) = take 100 (e # evaluations (state s))
   \<and> length (evaluations (state (addEvaluation e s))) \<le> 100
   \<and> evaluations (state (addEvaluation e s)) ! 0 = e
   \<and> length (evaluations (state (run ops devStore))) \<le> 100
   \<and> (length rs = 101 \<and> hd rs \<notin> set (tl rs) \<longrightarrow>
        length (evaluations (state (fold addEvaluation rs devStore))) = 100
        \<and> hd rs \<notin> set (evaluations (state (fold addEvaluation rs devStore)))
        \<and> evaluations (state (fold addEvaluation rs devStore)) ! 0 = last rs)"
proof -
  have step: "evaluations (state (addEvaluation e s)) = take 100 (e # evaluations (state s))"
    by (rule evaluations_addEvaluation)
  have bound: "length (evaluations (state (addEvaluation e s))) \<le> 100"
    by (simp add: step)
  have newest: "evaluations (state (addEvaluation e s)) ! 0 = e"
    by (simp add: step)
  have inv: "length (evaluations (state (run ops devStore))) \<le> 100"
    by (rule run_history_bounded) (simp add: devStore_def)
  have batch: "length (evaluations (state (fold addEvaluation rs devStore))) = 100
        \<and> hd rs \<notin> set (evaluations (state (fold addEvaluation rs devStore)))
        \<and> evaluations (state (fold addEvaluation rs devStore)) ! 0 = last rs"
    if len: "length rs = 101" and fresh: "hd rs \<notin> set (tl rs)"
  proof -
    from len obtain r rest where rs: "rs = r # rest" and rest: "length rest = 100"
      by (cases rs) simp_all
    have "evaluations (state (fold addEvaluation rs devStore))
            = take 100 (rev rs @ evaluations (state devStore))"
      by (rule evaluations_fold_addEvaluation) (simp add: devStore_def)
    then have ev: "evaluations (state (fold addEvaluation rs devStore)) = rev rest"
      using rest by (simp add: devStore_def rs)
    from rest have ne: "rest \<noteq> []" by auto
    have "rev rest ! 0 = last rest"
      using ne by (simp add: rev_nth last_conv_nth)
    with ev rs rest fresh ne show ?thesis by simp
  qed
  from step bound newest inv batch show ?thesis by blast
qed

theorem history_bounded_newest_first_witness:
  "length sampleBatch = 101
   \<and> hd sampleBatch \<notin> set (tl sampleBatch)
   \<and> length (evaluations (state (fold addEvaluation sampleBatch devStore))) = 100
   \<and> sampleEvaluation 0 \<notin> set (evaluations (state (fold addEvaluation sampleBatch devStore)))
   \<and> evaluations (state (fold addEvaluation sampleBatch devStore)) ! 0 = sampleEvaluation 100"
proof -
  have len: "length sampleBatch = 101"
    by (simp add: sampleBatch_def)
  have dist: "distinct sampleBatch"
    by (simp add: sampleBatch_def distinct_map inj_on_def sampleEvaluation_def)
  from len have "sampleBatch \<noteq> []"
    by auto
  then have "hd sampleBatch # tl sampleBatch = sampleBatch"
    by (rule hd_Cons_tl)
  with dist have fresh: "hd sampleBatch \<notin> set (tl sampleBatch)"
    by (metis distinct.simps(2))
  have first: "hd sampleBatch = sampleEvaluation 0"
    by (simp add: sampleBatch_def hd_map)
  have final: "last sampleBatch = sampleEvaluation 100"
    by (simp add: sampleBatch_def last_map)
  from len fresh first final
    history_bounded_newest_first [of "sampleEvaluation 0" devStore "[]" sampleBatch]
  show ?thesis by simp
qed

subsection \<open>Role and permission toggles\<close>

lemma toggleRole_rolesOf:
  "rolesOf (state (toggleRole k base s)) (toggleRole k base s)
     = (let res = flipMember k (case rolesOf (state s) s of Some ws \<Rightarrow> ws | None \<Rightarrow> base)
        in if res = [] then None else Some res)"
  by (cases "overrideRoles (state s)")
     (auto simp: toggleRole_def rolesOf_def flipMember_def newArray_def setOverrideRoles_def
        Let_def indexOf_found splice_indexOf)

lemma togglePermission_permissionsOf:
  "permissionsOf (state (togglePermission k base s)) (togglePermission k base s)
     = (let res = flipMember k (case permissionsOf (state s) s of Some ws \<Rightarrow> ws | None \<Rightarrow> base)
        in if res = [] then None else Some res)"
  by (cases "overridePermissions (state s)")
     (auto simp: togglePermission_def permissionsOf_def flipMember_def newArray_def
        setOverridePermissions_def Let_def indexOf_found splice_indexOf)

text \<open>
  C7, as stated, fails: from the initial store (no role override), the first
  \<open>toggleRole("x", ["a", "b"])\<close> sets the override to \<open>["a", "b", "x"]\<close>, and the second
  leaves the override set, to the list \<open>["a", "b"]\<close>; it is not \<open>undefined\<close>.
\<close>

theorem toggleRole_twice_counterexample:
  "overrideRoles (state devStore) = None
   \<and> rolesOf (state toggledOnce) toggledOnce = Some [''a'', ''b'', ''x'']
   \<and> overrideRoles (state toggledTwice) \<noteq> None
   \<and> rolesOf (state toggledTwice) toggledTwice = Some [''a'', ''b'']"
  by (simp add: toggledTwice_def toggledOnce_def store_defs)

text \<open>
  C7, amended. Starting with no role override and base roles \<open>["a", "b"]\<close>, calling
  \<open>toggleRole("x", ["a", "b"])\<close> once sets \<open>overrideRoles\<close> to \<open>["a", "b", "x"]\<close>, and
  calling it a second time with the same arguments sets \<open>overrideRoles\<close> to the explicit
  list \<open>["a", "b"]\<close> (equal to the base, but present).
\<close>

theorem toggleRole_twice_leaves_base_as_override:
  "overrideRoles (state s) = None \<Longrightarrow>
   s1 = toggleRole ''x'' [''a'', ''b''] s \<Longrightarrow>
   s2 = toggleRole ''x'' [''a'', ''b''] s1 \<Longrightarrow>
   rolesOf (state s1) s1 = Some [''a'', ''b'', ''x'']
   \<and> rolesOf (state s2) s2 = Some [''a'', ''b'']"
proof -
  assume absent: "overrideRoles (state s) = None"
    and s1: "s1 = toggleRole ''x'' [''a'', ''b''] s"
    and s2: "s2 = toggleRole ''x'' [''a'', ''b''] s1"
  from absent have "rolesOf (state s) s = None"
    by (simp add: rolesOf_def)
  then have one: "rolesOf (state s1) s1 = Some [''a'', ''b'', ''x'']"
    unfolding s1 by (simp add: toggleRole_rolesOf flipMember_def)
  then have "rolesOf (state s2) s2 = Some [''a'', ''b'']"
    unfolding s2 by (simp add: toggleRole_rolesOf flipMember_def)
  with one show ?thesis by simp
qed

theorem toggleRole_twice_leaves_base_as_override_witness:
  "overrideRoles (state devStore) = None
   \<and> rolesOf (state (toggleRole ''x'' [''a'', ''b''] devStore))
        (toggleRole ''x'' [''a'', ''b''] devStore) = Some [''a'', ''b'', ''x'']
   \<and> rolesOf (state (toggleRole ''x'' [''a'', ''b''] (toggleRole ''x'' [''a'', ''b''] devStore)))
        (toggleRole ''x'' [''a'', ''b''] (toggleRole ''x'' [''a'', ''b''] devStore))
       = Some [''a'', ''b'']"
proof -
  have absent: "overrideRoles (state devStore) = None"
    by (simp add: devStore_def)
  from absent toggleRole_twice_leaves_base_as_override [OF absent refl refl]
  show ?thesis by simp
qed

text \<open>
  C8, as stated, fails when the key occurs more than once in the working array: with no
  override and base \<open>["a", "a"]\<close>, toggling \<open>"a"\<close> removes one occurrence only, so \<open>"a"\<close>
  is a member before and after.
\<close>

theorem toggle_duplicate_counterexample:
  "rolesOf (state devStore) devStore = None
   \<and> ''a'' \<in> set [''a'', ''a'']
   \<and> rolesOf (state duplicateToggled) duplicateToggled = Some [''a'']
   \<and> ''a'' \<in> set [''a'']"
  by (simp add: duplicateToggled_def store_defs)

text \<open>
  C8, amended. For every toggle of a role or permission key, the working array is the
  current override if present, else a copy of the given base; if the key is in it, its first
  occurrence is removed, otherwise the key is appended; the result is the new override,
  except that an empty result makes the override absent. So the key's membership is flipped
  whenever the key occurs at most once in the working array.
\<close>

theorem toggle_removes_first_or_appends:
  "(working = (case rolesOf (state s) s of Some ws \<Rightarrow> ws | None \<Rightarrow> base) \<and>
    after = toggleRole k base s \<longrightarrow>
      (k \<in> set working \<longrightarrow>
         rolesOf (state after) after
           = (if remove1 k working = [] then None else Some (remove1 k working)))
      \<and> (k \<notin> set working \<longrightarrow> rolesOf (state after) after = Some (working @ [k]))
      \<and> (count_list working k \<le> 1 \<longrightarrow>
           (k \<in> set (case rolesOf (state after) after of Some ws \<Rightarrow> ws | None \<Rightarrow> []))
             = (k \<notin> set working)))
   \<and> (working = (case permissionsOf (state s) s of Some ws \<Rightarrow> ws | None \<Rightarrow> base) \<and>
      after = togglePermission k base s \<longrightarrow>
      (k \<in> set working \<longrightarrow>
         permissionsOf (state after) after
           = (if remove1 k working = [] then None else Some (remove1 k working)))
      \<and> (k \<notin> set working \<longrightarrow> permissionsOf (state after) after = Some (working @ [k]))
      \<and> (count_list working k \<le> 1 \<longrightarrow>
           (k \<in> set (case permissionsOf (state after) after of Some ws \<Rightarrow> ws | None \<Rightarrow> []))
             = (k \<notin> set working)))"
proof -
  have flip: "count_list ws k \<le> 1 \<Longrightarrow>
      (k \<in> set (case (let res = flipMember k ws in if res = [] then None else Some res)
                 of Some ws \<Rightarrow> ws | None \<Rightarrow> [])) = (k \<notin> set ws)" for ws
    using remove1_last_occurrence [of ws k] by (auto simp: flipMember_def Let_def)
  have r: "(k \<in> set working \<longrightarrow>
         rolesOf (state after) after
           = (if remove1 k working = [] then None else Some (remove1 k working)))
      \<and> (k \<notin> set working \<longrightarrow> rolesOf (state after) after = Some (working @ [k]))
      \<and> (count_list working k \<le> 1 \<longrightarrow>
           (k \<in> set (case rolesOf (state after) after of Some ws \<Rightarrow> ws | None \<Rightarrow> []))
             = (k \<notin> set working))"
    if "working = (case rolesOf (state s) s of Some ws \<Rightarrow> ws | None \<Rightarrow> base)"
      and "after = toggleRole k base s"
    using that flip [of working]
    by (simp add: toggleRole_rolesOf flipMember_def Let_def)
  have p: "(k \<in> set working \<longrightarrow>
         permissionsOf (state after) after
           = (if remove1 k working = [] then None else Some (remove1 k working)))
      \<and> (k \<notin> set working \<longrightarrow> permissionsOf (state after) after = Some (working @ [k]))
      \<and> (count_list working k \<le> 1 \<longrightarrow>
           (k \<in> set (case permissionsOf (state after) after of Some ws \<Rightarrow> ws | None \<Rightarrow> []))
             = (k \<notin> set working))"
    if "working = (case permissionsOf (state s) s of Some ws \<Rightarrow> ws | None \<Rightarrow> base)"
      and "after = togglePermission k base s"
    using that flip [of working]
    by (simp add: togglePermission_permissionsOf flipMember_def Let_def)
  from r p show ?thesis by blast
qed

theorem toggle_removes_first_or_appends_witness:
  "[''a'', ''b''] = (case rolesOf (state devStore) devStore of Some ws \<Rightarrow> ws | None \<Rightarrow> [''a'', ''b''])
   \<and> ''x'' \<notin> set [''a'', ''b'']
   \<and> count_list [''a'', ''b''] ''x'' \<le> 1
   \<and> rolesOf (state (toggleRole ''x'' [''a'', ''b''] devStore))
        (toggleRole ''x'' [''a'', ''b''] devStore) = Some [''a'', ''b'', ''x'']
   \<and> [''a''] = (case permissionsOf (state devStore) devStore of Some ws \<Rightarrow> ws | None \<Rightarrow> [''a''])
   \<and> ''a'' \<in> set [''a'']
   \<and> count_list [''a''] ''a'' \<le> 1
   \<and> permissionsOf (state (togglePermission ''a'' [''a''] devStore))
        (togglePermission ''a'' [''a''] devStore) = None"
proof -
  have w1: "[''a'', ''b''] = (case rolesOf (state devStore) devStore of Some ws \<Rightarrow> ws | None \<Rightarrow> [''a'', ''b''])"
    by (simp add: rolesOf_def devStore_def)
  have w2: "[''a''] = (case permissionsOf (state devStore) devStore of Some ws \<Rightarrow> ws | None \<Rightarrow> [''a''])"
    by (simp add: permissionsOf_def devStore_def)
  from w1 w2
    toggle_removes_first_or_appends
      [where working = "[''a'', ''b'']" and s = devStore and base = "[''a'', ''b'']"
         and after = "toggleRole ''x'' [''a'', ''b''] devStore" and k = "''x''"]
    toggle_removes_first_or_appends
      [where working = "[''a'']" and s = devStore and base = "[''a'']"
         and after = "togglePermission ''a'' [''a''] devStore" and k = "''a''"]
  show ?thesis by simp
qed

subsection \<open>Notification\<close>

text \<open>
  Every operation that changes the state object calls each subscribed listener once, with
  a copy of the whole state object as it is after the change; a listener is in the set at
  most once. \<open>resetOverrides\<close> clears the four override fields before its one notification.
\<close>

lemma exec_notifies_each_listener_once:
  "notifies op \<Longrightarrow>
   listeners (exec op s) = listeners s
   \<and> calls (exec op s) = calls s @ map (\<lambda>l. (l, state (exec op s))) (listeners s)"
  by (cases "(op, s)" rule: exec.cases)
     (auto simp: addEvaluation_def clearEvaluations_def togglePanel_def setOpen_def
        setOverrideUser_def setOverrideRoles_def setOverridePermissions_def
        setOverrideFlags_def toggleRole_def togglePermission_def toggleFlag_def
        resetOverrides_def newArray_def newFlagObject_def Let_def
        split: prod.splits option.splits)

lemma listeners_stay_distinct:
  "distinct (listeners s) \<Longrightarrow> distinct (listeners (exec op s))"
  by (cases "(op, s)" rule: exec.cases)
     (auto simp: addEvaluation_def clearEvaluations_def togglePanel_def setOpen_def
        setOverrideUser_def setOverrideRoles_def setOverridePermissions_def
        setOverrideFlags_def toggleRole_def togglePermission_def toggleFlag_def
        resetOverrides_def newArray_def newFlagObject_def subscribe_def unsubscribe_def
        Let_def distinct_removeAll split: prod.splits option.splits)

lemma resetOverrides_clears_all:
  "overrideUser (state (resetOverrides s)) = None
   \<and> overrideRoles (state (resetOverrides s)) = None
   \<and> overridePermissions (state (resetOverrides s)) = None
   \<and> overrideFlags (state (resetOverrides s)) = None
   \<and> calls (resetOverrides s) = calls s @ map (\<lambda>l. (l, state (resetOverrides s))) (listeners s)"
  by (simp add: resetOverrides_def)

text \<open>
  C9. The snapshot is a copy of the state object's fields only, and a toggle changes the
  override array in place when the override is set. With listener 7 subscribed to the
  initial store, \<open>toggleRole("x", ["a", "b"])\<close> calls the listener once, with a snapshot
  whose \<open>overrideRoles\<close> reads \<open>["a", "b", "x"]\<close>; after \<open>toggleRole("y", ["a", "b"])\<close> the
  listener has been called a second time, and the first snapshot's \<open>overrideRoles\<close> now
  reads \<open>["a", "b", "x", "y"]\<close>: a delivered snapshot has been mutated.
\<close>

theorem delivered_snapshot_changes_under_toggleRole:
  "calls watchedOnce = [(7, state watchedOnce)]
   \<and> rolesOf (state watchedOnce) watchedOnce = Some [''a'', ''b'', ''x'']
   \<and> calls watchedTwice = [(7, state watchedOnce), (7, state watchedTwice)]
   \<and> rolesOf (state watchedOnce) watchedTwice = Some [''a'', ''b'', ''x'', ''y'']"
  by (simp add: watchedTwice_def watchedOnce_def store_defs)

subsection \<open>Flag toggles\<close>

text \<open>
  After \<open>toggleFlag\<close> the flags override is always present, and it is the working object
  (the existing override, or a copy of the base flags when there was none) after the
  assignment \<open>overrideFlags[flag] = !overrideFlags[flag]\<close>. A present flags override becomes
  absent only by \<open>resetOverrides\<close> or by \<open>setOverrideFlags(undefined)\<close>.
\<close>

lemma toggleFlag_present: "overrideFlags (state (toggleFlag flag base s)) \<noteq> None"
  by (simp add: toggleFlag_def setOverrideFlags_def Let_def split: prod.split)

lemma toggleFlag_flagsOf:
  "flagsOf (state (toggleFlag flag base s)) (toggleFlag flag base s)
     = Some (setProp (case flagsOf (state s) s of Some w \<Rightarrow> w | None \<Rightarrow> spreadFlags base) flag
               (notProp (getProp (case flagsOf (state s) s of Some w \<Rightarrow> w
                                  | None \<Rightarrow> spreadFlags base) flag)))"
  by (cases "overrideFlags (state s)")
     (simp_all add: toggleFlag_def flagsOf_def newFlagObject_def setOverrideFlags_def Let_def)

lemma overrideFlags_absent_only_by:
  "overrideFlags (state s) \<noteq> None \<Longrightarrow> overrideFlags (state (exec op s)) = None \<Longrightarrow>
   op = ResetOverrides \<or> op = SetOverrideFlags None"
  by (cases "(op, s)" rule: exec.cases)
     (auto simp: addEvaluation_def clearEvaluations_def togglePanel_def setOpen_def
        setOverrideUser_def setOverrideRoles_def setOverridePermissions_def
        setOverrideFlags_def toggleRole_def togglePermission_def toggleFlag_def
        resetOverrides_def newArray_def newFlagObject_def subscribe_def unsubscribe_def
        Let_def split: prod.splits option.splits if_splits)

lemma overrideFlags_made_absent:
  "overrideFlags (state (resetOverrides s)) = None
   \<and> overrideFlags (state (setOverrideFlags None s)) = None"
  by (simp add: resetOverrides_def setOverrideFlags_def)

text \<open>
  The assignment negates an own flag, turns on a flag that the working object neither has
  nor inherits, and leaves every other own flag as it was.
\<close>

lemma toggleFlag_negates_own_flag:
  "working = (case flagsOf (state s) s of Some w \<Rightarrow> w | None \<Rightarrow> spreadFlags base) \<Longrightarrow>
   ownFlags working flag = Some b \<Longrightarrow>
   ownFlagOf (toggleFlag flag base s) flag = Some (\<not> b)"
  using toggleFlag_flagsOf [of flag base s] toggleFlag_present [of flag base s]
  by (auto simp: ownFlagOf_def flagsOf_def getProp_def setProp_def)

lemma toggleFlag_turns_on_missing_flag:
  "working = (case flagsOf (state s) s of Some w \<Rightarrow> w | None \<Rightarrow> spreadFlags base) \<Longrightarrow>
   ownFlags working flag = None \<Longrightarrow>
   \<not> plain working \<or> flag \<notin> set Object_prototype_names \<Longrightarrow>
   ownFlagOf (toggleFlag flag base s) flag = Some True"
  using toggleFlag_flagsOf [of flag base s] toggleFlag_present [of flag base s]
  by (auto simp: ownFlagOf_def flagsOf_def getProp_def setProp_def Object_prototype_names_def)

lemma toggleFlag_keeps_other_flags:
  "working = (case flagsOf (state s) s of Some w \<Rightarrow> w | None \<Rightarrow> spreadFlags base) \<Longrightarrow>
   k \<noteq> flag \<Longrightarrow>
   ownFlagOf (toggleFlag flag base s) k = ownFlags working k"
  using toggleFlag_flagsOf [of flag base s] toggleFlag_present [of flag base s]
  by (auto simp: ownFlagOf_def flagsOf_def getProp_def setProp_def)

text \<open>
  From the initial store and the base \<open>{}\<close>, toggling \<open>"beta"\<close> gives \<open>{beta: true}\<close>, then
  \<open>{beta: false}\<close> (present, with every flag false), then \<open>{beta: true}\<close> again;
  \<open>resetOverrides\<close> removes the override.
\<close>

lemma toggleFlag_examples:
  "overrideFlags (state flagOn) \<noteq> None \<and> ownFlagOf flagOn ''beta'' = Some True
   \<and> overrideFlags (state flagOff) \<noteq> None \<and> ownFlagOf flagOff ''beta'' = Some False
   \<and> overrideFlags (state flagOnAgain) \<noteq> None \<and> ownFlagOf flagOnAgain ''beta'' = Some True
   \<and> overrideFlags (state (exec ResetOverrides flagOff)) = None"
  by (simp add: flagOnAgain_def flagOff_def flagOn_def ownFlagOf_def noFlags_def store_defs)

text \<open>
  C10. The flags override stays present after every \<open>toggleFlag\<close>, but the value stored is
  not always the negation of the flag's value: the read \<open>overrideFlags[flag]\<close> also finds
  what the object inherits from \<open>Object.prototype\<close>. From the initial store and the base
  \<open>{}\<close>, toggling the flag \<open>"toString"\<close>, which is not set, stores \<open>toString: false\<close> (the
  inherited function is truthy), and toggling \<open>"__proto__"\<close> stores no flag at all (the
  assignment goes to the inherited setter): the override is the empty object.
\<close>

theorem toggleFlag_reads_inherited_members:
  "overrideFlags (state devStore) = None
   \<and> noFlags ''toString'' = None
   \<and> overrideFlags (state toStringToggled) \<noteq> None
   \<and> ownFlagOf toStringToggled ''toString'' = Some False
   \<and> noFlags ''__proto__'' = None
   \<and> overrideFlags (state protoToggled) \<noteq> None
   \<and> ownFlagOf protoToggled ''__proto__'' = None
   \<and> flagsOf (state protoToggled) protoToggled = Some (spreadFlags noFlags)"
  by (simp add: toStringToggled_def protoToggled_def ownFlagOf_def noFlags_def store_defs)

end
